theory Spec2Isabelle
  imports Complex_Main "HOL-Library.AList"
begin

section \<open>NexVue: the analysis client and the capture-and-analyze control loop\<close>

text \<open>
  The development embeds two source files: \<^verbatim>\<open>services/geminiService.ts\<close> (the function
  \<^verbatim>\<open>analyzeRoadScene\<close> and its response schema) and the \<^verbatim>\<open>App\<close> component (its
  state variables, refs, handlers and effects). JavaScript values that the program only
  passes around are kept as they are at run time: a parsed reply is a JSON value, not the
  TypeScript interface it is cast to, because the cast \<^verbatim>\<open>as AnalysisResult\<close> checks
  nothing.
\<close>

subsection \<open>JSON values and the JavaScript operations applied to them\<close>

text \<open>
  A number is held as the text JavaScript prints for it: the program never computes with
  a number of a reply, it only copies it or turns it into a string.
\<close>

datatype json =
    JNull
  | JBool bool
  | JNum string
  | JStr string
  | JArr "json list"
  | JObj "(string \<times> json) list"

type_synonym js_object = "(string \<times> json) list"

text \<open>The property key of an array index: its decimal digits.\<close>

definition digit_char :: "nat \<Rightarrow> char" where
  "digit_char d = (''0123456789'' @ ''0'') ! min d 10"

fun index_key :: "nat \<Rightarrow> string" where
  "index_key n =
     (if 10 \<le> n then index_key (n div 10) else []) @ [digit_char (n mod 10)]"

declare index_key.simps [simp del]

text \<open>
  The object spread \<^verbatim>\<open>{...data}\<close>: the own enumerable properties of the value. An object
  gives its fields, an array and a string give their indexed elements, every other value
  gives nothing.
\<close>

fun spread :: "json \<Rightarrow> js_object" where
  "spread (JObj kv) = kv"
| "spread (JArr xs) = zip (map index_key [0..<length xs]) xs"
| "spread (JStr s) = zip (map index_key [0..<length s]) (map (\<lambda>c. JStr [c]) s)"
| "spread JNull = []"
| "spread (JBool b) = []"
| "spread (JNum n) = []"

text \<open>Property read \<^verbatim>\<open>obj.name\<close>: \<open>None\<close> is \<^verbatim>\<open>undefined\<close>.\<close>

definition field :: "js_object \<Rightarrow> string \<Rightarrow> json option" where
  "field obj name = map_of obj name"

text \<open>JavaScript's conversion of a value to a string.\<close>

fun join_with :: "string \<Rightarrow> string list \<Rightarrow> string" where
  "join_with sep [] = []"
| "join_with sep [x] = x"
| "join_with sep (x # y # ys) = x @ sep @ join_with sep (y # ys)"

fun js_to_string :: "json \<Rightarrow> string" where
  "js_to_string JNull = ''null''"
| "js_to_string (JBool b) = (if b then ''true'' else ''false'')"
| "js_to_string (JNum n) = n"
| "js_to_string (JStr s) = s"
| "js_to_string (JArr xs) =
     join_with '','' (map (\<lambda>x. if x = JNull then [] else js_to_string x) xs)"
| "js_to_string (JObj kv) = ''[object Object]''"

text \<open>A value inside a template literal: \<^verbatim>\<open>undefined\<close> prints as the word.\<close>

definition template_string :: "json option \<Rightarrow> string" where
  "template_string v = (case v of None \<Rightarrow> ''undefined'' | Some j \<Rightarrow> js_to_string j)"

text \<open>
  A value passed as the optional \<^verbatim>\<open>text\<close> argument of \<^verbatim>\<open>SpeechSynthesisUtterance\<close>:
  \<^verbatim>\<open>undefined\<close> counts as an omitted argument and gives the empty text.
\<close>

definition utterance_string :: "json option \<Rightarrow> string" where
  "utterance_string v = (case v of None \<Rightarrow> [] | Some j \<Rightarrow> js_to_string j)"

subsection \<open>The response schema (\<^verbatim>\<open>analysisSchema\<close>)\<close>

definition is_string :: "json option \<Rightarrow> bool" where
  "is_string v = (case v of Some (JStr s) \<Rightarrow> True | _ \<Rightarrow> False)"

definition is_enum :: "string list \<Rightarrow> json option \<Rightarrow> bool" where
  "is_enum allowed v = (case v of Some (JStr s) \<Rightarrow> List.member allowed s | _ \<Rightarrow> False)"

definition sign_schema :: "json \<Rightarrow> bool" where
  "sign_schema j =
     (case j of
        JObj kv \<Rightarrow>
          is_string (field kv ''type'') \<and> is_string (field kv ''meaning'')
          \<and> is_string (field kv ''location'')
      | _ \<Rightarrow> False)"

definition hazard_schema :: "json \<Rightarrow> bool" where
  "hazard_schema j =
     (case j of
        JObj kv \<Rightarrow>
          is_string (field kv ''type'')
          \<and> is_enum [''LOW'', ''MEDIUM'', ''HIGH''] (field kv ''severity'')
          \<and> is_string (field kv ''description'')
      | _ \<Rightarrow> False)"

definition is_array_of :: "(json \<Rightarrow> bool) \<Rightarrow> json option \<Rightarrow> bool" where
  "is_array_of item v = (case v of Some (JArr xs) \<Rightarrow> list_all item xs | _ \<Rightarrow> False)"

definition analysisSchema :: "json \<Rightarrow> bool" where
  "analysisSchema j =
     (case j of
        JObj kv \<Rightarrow>
          is_array_of sign_schema (field kv ''signs'')
          \<and> is_array_of hazard_schema (field kv ''hazards'')
          \<and> is_enum [''SAFE'', ''CAUTION'', ''DANGER''] (field kv ''safetyLevel'')
          \<and> is_string (field kv ''recommendation'')
      | _ \<Rightarrow> False)"

subsection \<open>\<^verbatim>\<open>analyzeRoadScene\<close>\<close>

text \<open>
  The regular expression \<^verbatim>\<open>/^data:image\/(png|jpeg|jpg|webp);base64,/\<close>, replaced by the
  empty string: the first alternative whose literal prefix the payload starts with is
  removed, once; a payload that starts with none of them is returned as it is.
\<close>

definition dataUrlPrefixes :: "string list" where
  "dataUrlPrefixes =
     map (\<lambda>fmt. ''data:image/'' @ fmt @ '';base64,'') [''png'', ''jpeg'', ''jpg'', ''webp'']"

fun replace_prefix :: "string list \<Rightarrow> string \<Rightarrow> string" where
  "replace_prefix [] s = s"
| "replace_prefix (p # ps) s =
     (if take (length p) s = p then drop (length p) s else replace_prefix ps s)"

definition cleanBase64 :: "string \<Rightarrow> string" where
  "cleanBase64 base64Image = replace_prefix dataUrlPrefixes base64Image"

text \<open>The request handed to \<^verbatim>\<open>ai.models.generateContent\<close>.\<close>

record request =
  model :: string
  mimeType :: string
  inlineData :: string
  prompt :: string
  responseMimeType :: string
  systemInstruction :: string
  temperature :: rat

definition analyze_request :: "string \<Rightarrow> request" where
  "analyze_request base64Image =
     \<lparr> model = ''gemini-2.5-flash'',
       mimeType = ''image/jpeg'',
       inlineData = cleanBase64 base64Image,
       prompt = ''Analyze this road scene for an autonomous driving system. Identify road signs, detect potholes or road damage, and spot obstacles. Provide a safety assessment and driving recommendation.'',
       responseMimeType = ''application/json'',
       systemInstruction = ''You are an advanced autonomous vehicle vision system. Your priority is safety. Be precise about road signs and extremely vigilant about hazards like potholes and obstacles.'',
       temperature = 2 / 10 \<rparr>"

text \<open>
  What the awaited network call gives: it rejects, or it resolves to a response whose
  \<^verbatim>\<open>text\<close> is a string or \<^verbatim>\<open>undefined\<close>.
\<close>

datatype net_outcome = NetworkFailure string | Response "string option"

datatype js_error =
    NetworkError string
  | NoResponseText
  | JsonSyntaxError
  | FetchError string
  | CameraError string

datatype log_entry = Labelled string js_error | Plain js_error

text \<open>
  The part of \<^verbatim>\<open>analyzeRoadScene\<close> after the \<^verbatim>\<open>await\<close>. \<open>parse\<close> is the platform's
  \<^verbatim>\<open>JSON.parse\<close> (\<open>None\<close> when it throws), \<open>now\<close> is
  \<^verbatim>\<open>new Date().toLocaleTimeString()\<close>. The result is the lines written to the console
  and either the error thrown (\<open>Inl\<close>) or the object returned. The \<^verbatim>\<open>catch\<close> block logs
  every error and throws it again.
\<close>

definition rethrow :: "js_error \<Rightarrow> log_entry list \<times> (js_error + js_object)" where
  "rethrow e = ([Labelled ''Gemini Analysis Error:'' e], Inl e)"

definition analyze_reply ::
  "(string \<Rightarrow> json option) \<Rightarrow> string \<Rightarrow> net_outcome \<Rightarrow> log_entry list \<times> (js_error + js_object)"
where
  "analyze_reply parse now outcome =
     (case outcome of
        NetworkFailure msg \<Rightarrow> rethrow (NetworkError msg)
      | Response txt \<Rightarrow>
          (case txt of
             None \<Rightarrow> rethrow NoResponseText
           | Some s \<Rightarrow>
               if s = [] then rethrow NoResponseText
               else (case parse s of
                       None \<Rightarrow> rethrow JsonSyntaxError
                     | Some data \<Rightarrow>
                         ([], Inr (AList.update ''timestamp'' (JStr now) (spread data))))))"

text \<open>The whole call, with the network as a function of the request it is sent.\<close>

definition analyzeRoadScene ::
  "(string \<Rightarrow> json option) \<Rightarrow> (request \<Rightarrow> net_outcome) \<Rightarrow> string \<Rightarrow> string
     \<Rightarrow> log_entry list \<times> (js_error + js_object)"
where
  "analyzeRoadScene parse net now base64Image =
     analyze_reply parse now (net (analyze_request base64Image))"

subsection \<open>The \<^verbatim>\<open>App\<close> component: state, refs and the browser around it\<close>

datatype mode = Initial | Camera | Upload

datatype file_type = Image | Video

text \<open>A \<^verbatim>\<open>MediaStream\<close>, by the ids of its tracks.\<close>

type_synonym media_stream = "nat list"

text \<open>
  The state variables of the component (\<^verbatim>\<open>useState\<close>). A value of this type is also what
  a function created by one render closes over: the handlers, \<^verbatim>\<open>captureAndAnalyze\<close> and
  the effects read these variables as they were in the render that created them, not as
  they are when the function runs.
\<close>

record rstate =
  mode :: mode
  fileType :: "file_type option"
  mediaSource :: "string option"
  cameraStream :: "media_stream option"
  result :: "js_object option"
  analyzing :: bool
  error :: "string option"
  isVoiceEnabled :: bool
  isAutoScan :: bool

text \<open>
  The video element behind \<^verbatim>\<open>videoRef\<close>. \<open>frame\<close> is the data URL that drawing the
  current frame on the canvas and calling \<^verbatim>\<open>toDataURL('image/jpeg', 0.8)\<close> gives.
\<close>

record video_element =
  videoWidth :: nat
  videoHeight :: nat
  srcObject :: "media_stream option"
  frame :: string

text \<open>The canvas behind \<^verbatim>\<open>canvasRef\<close>; \<open>context2d\<close> tells whether \<^verbatim>\<open>getContext('2d')\<close>
  returns a context.\<close>

record canvas_element =
  width :: nat
  height :: nat
  context2d :: bool

record utterance =
  utterance_text :: string
  rate :: rat
  pitch :: rat

text \<open>
  One invocation of \<^verbatim>\<open>captureAndAnalyze\<close> is suspended at one of its two \<^verbatim>\<open>await\<close>s, or
  it has returned. A suspended invocation keeps the render it closes over; while it is in
  \<open>AwaitAnalysis\<close> its call of the analysis client is active.
\<close>

datatype call = AwaitFetch rstate | AwaitAnalysis rstate request | Finished

text \<open>
  The component and the browser state it acts on: the state variables, the last committed
  render (\<open>None\<close> before the component is mounted), the refs, the interval timers that
  are set (each with the render its callback closes over), the tracks that were stopped,
  the queue of \<^verbatim>\<open>window.speechSynthesis\<close> (\<open>None\<close> in a browser without it; the head of
  the queue is the utterance being spoken), the console, and the invocations of
  \<^verbatim>\<open>captureAndAnalyze\<close> made so far.
\<close>

record world =
  rs :: rstate
  rendered :: "rstate option"
  videoRef :: "video_element option"
  canvasRef :: "canvas_element option"
  autoScanInterval :: "nat option"
  timers :: "(nat \<times> rstate) list"
  nextTimer :: nat
  endedTracks :: "nat set"
  speechSynthesis :: "utterance list option"
  console :: "log_entry list"
  calls :: "call list"

definition initial_rstate :: rstate where
  "initial_rstate =
     \<lparr> mode = Initial, fileType = None, mediaSource = None, cameraStream = None,
       result = None, analyzing = False, error = None, isVoiceEnabled = False,
       isAutoScan = False \<rparr>"

definition initial_world :: world where
  "initial_world =
     \<lparr> rs = initial_rstate, rendered = None, videoRef = None, canvasRef = None,
       autoScanInterval = None, timers = [], nextTimer = 1, endedTracks = {},
       speechSynthesis = Some [], console = [], calls = [] \<rparr>"

text \<open>The state setters.\<close>

definition setMode :: "mode \<Rightarrow> world \<Rightarrow> world" where
  "setMode v w = w\<lparr>rs := (rs w)\<lparr>mode := v\<rparr>\<rparr>"

definition setFileType :: "file_type option \<Rightarrow> world \<Rightarrow> world" where
  "setFileType v w = w\<lparr>rs := (rs w)\<lparr>fileType := v\<rparr>\<rparr>"

definition setMediaSource :: "string option \<Rightarrow> world \<Rightarrow> world" where
  "setMediaSource v w = w\<lparr>rs := (rs w)\<lparr>mediaSource := v\<rparr>\<rparr>"

definition setCameraStream :: "media_stream option \<Rightarrow> world \<Rightarrow> world" where
  "setCameraStream v w = w\<lparr>rs := (rs w)\<lparr>cameraStream := v\<rparr>\<rparr>"

definition setResult :: "js_object option \<Rightarrow> world \<Rightarrow> world" where
  "setResult v w = w\<lparr>rs := (rs w)\<lparr>result := v\<rparr>\<rparr>"

definition setAnalyzing :: "bool \<Rightarrow> world \<Rightarrow> world" where
  "setAnalyzing v w = w\<lparr>rs := (rs w)\<lparr>analyzing := v\<rparr>\<rparr>"

definition setError :: "string option \<Rightarrow> world \<Rightarrow> world" where
  "setError v w = w\<lparr>rs := (rs w)\<lparr>error := v\<rparr>\<rparr>"

definition setIsVoiceEnabled :: "bool \<Rightarrow> world \<Rightarrow> world" where
  "setIsVoiceEnabled v w = w\<lparr>rs := (rs w)\<lparr>isVoiceEnabled := v\<rparr>\<rparr>"

definition setIsAutoScan :: "bool \<Rightarrow> world \<Rightarrow> world" where
  "setIsAutoScan v w = w\<lparr>rs := (rs w)\<lparr>isAutoScan := v\<rparr>\<rparr>"

definition console_error :: "log_entry \<Rightarrow> world \<Rightarrow> world" where
  "console_error e w = w\<lparr>console := console w @ [e]\<rparr>"

text \<open>Statements in sequence: the first of the list runs first.\<close>

definition seq :: "('s \<Rightarrow> 's) list \<Rightarrow> 's \<Rightarrow> 's" where
  "seq fs s = fold (\<lambda>f. f) fs s"

subsection \<open>Voice\<close>

definition speech_cancel :: "world \<Rightarrow> world" where
  "speech_cancel w = w\<lparr>speechSynthesis := map_option (\<lambda>q. []) (speechSynthesis w)\<rparr>"

definition speech_speak :: "utterance \<Rightarrow> world \<Rightarrow> world" where
  "speech_speak u w = w\<lparr>speechSynthesis := map_option (\<lambda>q. q @ [u]) (speechSynthesis w)\<rparr>"

text \<open>\<^verbatim>\<open>speak(text, priority)\<close>, created by a render \<open>cl\<close>.\<close>

definition speak :: "rstate \<Rightarrow> json option \<Rightarrow> bool \<Rightarrow> world \<Rightarrow> world" where
  "speak cl txt priority w =
     (if \<not> isVoiceEnabled cl \<or> speechSynthesis w = None then w
      else speech_speak \<lparr> utterance_text = utterance_string txt, rate = 11 / 10, pitch = 1 \<rparr>
             (if priority then speech_cancel w else w))"

text \<open>The effect that reacts to a new result with voice.\<close>

definition voice_effect :: "rstate \<Rightarrow> world \<Rightarrow> world" where
  "voice_effect cl w =
     (case result cl of
        None \<Rightarrow> w
      | Some r \<Rightarrow>
          if isVoiceEnabled cl then
            (if field r ''safetyLevel'' = Some (JStr ''DANGER'') then
               speak cl (Some (JStr (''Warning. '' @ template_string (field r ''recommendation'')))) True w
             else if field r ''safetyLevel'' = Some (JStr ''CAUTION'') then
               speak cl (Some (JStr (''Caution. '' @ template_string (field r ''recommendation'')))) False w
             else if \<not> isAutoScan cl then speak cl (field r ''recommendation'') False w
             else w)
          else w)"

text \<open>The click handler of the voice toggle.\<close>

definition toggleVoice :: "rstate \<Rightarrow> world \<Rightarrow> world" where
  "toggleVoice cl w =
     (let newState = \<not> isVoiceEnabled cl;
          w1 = setIsVoiceEnabled newState w
      in if \<not> newState \<and> speechSynthesis w1 \<noteq> None then speech_cancel w1 else w1)"

subsection \<open>Camera, upload and reset\<close>

text \<open>\<^verbatim>\<open>startCamera\<close> after its \<^verbatim>\<open>await\<close> of \<^verbatim>\<open>getUserMedia\<close>.\<close>

definition startCamera :: "js_error + media_stream \<Rightarrow> world \<Rightarrow> world" where
  "startCamera outcome w =
     (case outcome of
        Inr stream \<Rightarrow>
          seq [setCameraStream (Some stream), setMode Camera, setFileType (Some Video),
               setError None, setResult None] w
      | Inl err \<Rightarrow>
          seq [console_error (Labelled ''Error accessing camera:'' err),
               setError (Some ''Could not access camera. Check permissions or try a different browser.'')] w)"

definition stopCamera :: "rstate \<Rightarrow> world \<Rightarrow> world" where
  "stopCamera cl w =
     (let w1 = (case cameraStream cl of
                  Some stream \<Rightarrow>
                    setCameraStream None (w\<lparr>endedTracks := endedTracks w \<union> set stream\<rparr>)
                | None \<Rightarrow> w)
      in case videoRef w1 of
           Some v \<Rightarrow> w1\<lparr>videoRef := Some (v\<lparr>srcObject := None\<rparr>)\<rparr>
         | None \<Rightarrow> w1)"

text \<open>\<^verbatim>\<open>handleFileUpload\<close>: the chosen file, if any, by its object URL and its MIME type.\<close>

definition handleFileUpload :: "(string \<times> string) option \<Rightarrow> world \<Rightarrow> world" where
  "handleFileUpload file w =
     (case file of
        None \<Rightarrow> w
      | Some (url, mime) \<Rightarrow>
          seq [setMediaSource (Some url), setMode Upload, setResult None, setError None,
               (if take 6 mime = ''video/'' then setFileType (Some Video)
                else setFileType (Some Image))] w)"

definition reset :: "rstate \<Rightarrow> world \<Rightarrow> world" where
  "reset cl w =
     seq [stopCamera cl, setIsAutoScan False, setMode Initial, setMediaSource None,
          setResult None, setFileType None, setError None] w"

subsection \<open>\<^verbatim>\<open>captureAndAnalyze\<close>\<close>

text \<open>
  The last block of the function, up to its \<^verbatim>\<open>await\<close>: with a captured image the flag is
  set and the analysis client is called; with none (\<^verbatim>\<open>null\<close> or the empty string) the
  function returns.
\<close>

definition submit :: "rstate \<Rightarrow> string option \<Rightarrow> world \<Rightarrow> world \<times> call" where
  "submit cl imageDataUrl w =
     (case imageDataUrl of
        None \<Rightarrow> (w, Finished)
      | Some url \<Rightarrow>
          if url = [] then (w, Finished)
          else (setAnalyzing True w, AwaitAnalysis cl (analyze_request url)))"

text \<open>The function from its start to its first \<^verbatim>\<open>await\<close> or its return.\<close>

definition captureAndAnalyze :: "rstate \<Rightarrow> world \<Rightarrow> world \<times> call" where
  "captureAndAnalyze cl w =
     (if analyzing cl then (w, Finished)
      else if fileType cl = Some Video \<and> videoRef w \<noteq> None \<and> canvasRef w \<noteq> None then
        (let video = the (videoRef w); canvas = the (canvasRef w)
         in if videoWidth video = 0 \<or> videoHeight video = 0 then (w, Finished)
            else
              (let w1 = w\<lparr>canvasRef :=
                          Some (canvas\<lparr>width := videoWidth video, height := videoHeight video\<rparr>)\<rparr>
               in submit cl (if context2d canvas then Some (frame video) else None) w1))
      else if fileType cl = Some Image \<and> mediaSource cl \<noteq> None \<and> mediaSource cl \<noteq> Some []
      then (w, AwaitFetch cl)
      else submit cl None w)"

text \<open>
  The continuation of the image branch: the fetch, the blob and the file reader gave a
  data URL, or one of them failed.
\<close>

definition captureAndAnalyze_fetched :: "rstate \<Rightarrow> js_error + string \<Rightarrow> world \<Rightarrow> world \<times> call" where
  "captureAndAnalyze_fetched cl outcome w =
     (case outcome of
        Inl err \<Rightarrow> (console_error (Labelled ''Error converting image to base64:'' err) w, Finished)
      | Inr dataUrl \<Rightarrow> submit cl (Some dataUrl) w)"

text \<open>
  The continuation after \<^verbatim>\<open>await analyzeRoadScene(imageDataUrl)\<close>: \<open>logged\<close> is what the
  client wrote to the console, \<open>outcome\<close> what it returned or threw.
\<close>

definition captureAndAnalyze_analyzed ::
  "rstate \<Rightarrow> log_entry list \<times> (js_error + js_object) \<Rightarrow> world \<Rightarrow> world"
where
  "captureAndAnalyze_analyzed cl reply w =
     (let w1 = w\<lparr>console := console w @ fst reply\<rparr>
      in case snd reply of
           Inr analysis \<Rightarrow> seq [setResult (Some analysis), setError None, setAnalyzing False] w1
         | Inl err \<Rightarrow>
             seq [console_error (Plain err),
                  (if \<not> isAutoScan cl then setError (Some ''Analysis failed. Try again.'')
                   else (\<lambda>w. w)),
                  setAnalyzing False] w1)"

subsection \<open>The auto-scan timer\<close>

text \<open>
  \<^verbatim>\<open>window.setInterval\<close> hands out the ids \<open>nextTimer\<close>, \<open>nextTimer + 1\<close>, ... (an id
  is never zero). The test \<^verbatim>\<open>if (autoScanInterval.current)\<close> holds for an id other than
  zero.
\<close>

definition truthy_id :: "nat option \<Rightarrow> bool" where
  "truthy_id r = (case r of None \<Rightarrow> False | Some i \<Rightarrow> i \<noteq> 0)"

definition clearInterval :: "nat \<Rightarrow> world \<Rightarrow> world" where
  "clearInterval i w = w\<lparr>timers := filter (\<lambda>t. fst t \<noteq> i) (timers w)\<rparr>"

text \<open>
  The body of the auto-scan effect, run for a render \<open>cl\<close>. The callback of the timer
  calls the \<^verbatim>\<open>captureAndAnalyze\<close> of that render, so the timer is stored with \<open>cl\<close>.
\<close>

definition autoScan_effect :: "rstate \<Rightarrow> world \<Rightarrow> world" where
  "autoScan_effect cl w =
     (if isAutoScan cl then
        (let i = nextTimer w
         in w\<lparr>timers := timers w @ [(i, cl)], nextTimer := i + 1, autoScanInterval := Some i\<rparr>)
      else if truthy_id (autoScanInterval w) then
        (clearInterval (the (autoScanInterval w)) w)\<lparr>autoScanInterval := None\<rparr>
      else w)"

text \<open>The function the effect returns, run before the effect runs again and on unmount.\<close>

definition autoScan_cleanup :: "world \<Rightarrow> world" where
  "autoScan_cleanup w =
     (if truthy_id (autoScanInterval w) then clearInterval (the (autoScanInterval w)) w else w)"



subsection \<open>Commits\<close>

text \<open>
  The elements the refs point to after a commit: the video element is rendered outside
  the initial mode when the file type is video, the canvas always.
\<close>

definition attach_refs :: "rstate \<Rightarrow> world \<Rightarrow> world" where
  "attach_refs cl w =
     w\<lparr>videoRef :=
         (if mode cl \<noteq> Initial \<and> fileType cl = Some Video then
            (case videoRef w of
               None \<Rightarrow> Some \<lparr> videoWidth = 0, videoHeight = 0, srcObject = None, frame = [] \<rparr>
             | Some v \<Rightarrow> Some v)
          else None),
       canvasRef :=
         (case canvasRef w of
            None \<Rightarrow> Some \<lparr> width = 300, height = 150, context2d = True \<rparr>
          | Some c \<Rightarrow> Some c)\<rparr>"

text \<open>The effect that attaches the camera stream to the video element (a failure of
  \<^verbatim>\<open>play\<close>, which is only logged, is left out).\<close>

definition attach_effect :: "rstate \<Rightarrow> world \<Rightarrow> world" where
  "attach_effect cl w =
     (if mode cl = Camera \<and> cameraStream cl \<noteq> None \<and> videoRef w \<noteq> None then
        w\<lparr>videoRef := Some ((the (videoRef w))\<lparr>srcObject := cameraStream cl\<rparr>)\<rparr>
      else w)"

definition attach_deps :: "rstate \<Rightarrow> mode \<times> media_stream option" where
  "attach_deps cl = (mode cl, cameraStream cl)"

definition autoScan_deps ::
  "rstate \<Rightarrow> bool \<times> file_type option \<times> string option \<times> mode \<times> media_stream option"
where
  "autoScan_deps cl = (isAutoScan cl, fileType cl, mediaSource cl, mode cl, cameraStream cl)"

text \<open>
  React commits a render of the current state: the refs are attached, then every effect
  whose dependencies changed since the last commit runs (all of them at the first commit),
  the cleanup of its previous run first. The voice effect acts on the speech queue only
  and is stated on its own above.
\<close>

definition commit_attach :: "world \<Rightarrow> world" where
  "commit_attach w =
     (let cl = rs w; w1 = attach_refs cl w
      in case rendered w of
           None \<Rightarrow> attach_effect cl w1
         | Some old \<Rightarrow> if attach_deps old = attach_deps cl then w1 else attach_effect cl w1)"

definition commit_autoScan :: "rstate option \<Rightarrow> rstate \<Rightarrow> world \<Rightarrow> world" where
  "commit_autoScan previous cl w =
     (case previous of
        None \<Rightarrow> autoScan_effect cl w
      | Some old \<Rightarrow>
          if autoScan_deps old = autoScan_deps cl then w
          else autoScan_effect cl (autoScan_cleanup w))"

definition commit :: "world \<Rightarrow> world" where
  "commit w = (commit_autoScan (rendered w) (rs w) (commit_attach w))\<lparr>rendered := Some (rs w)\<rparr>"

subsection \<open>Events\<close>

text \<open>
  What can happen to the mounted component. A click runs the handler of the last
  committed render, and only when that render shows the button enabled. \<open>Tick i\<close> is the
  callback of timer \<open>i\<close>; \<open>Fetched n\<close> and \<open>Replied n\<close> resume invocation \<open>n\<close> of
  \<^verbatim>\<open>captureAndAnalyze\<close> at its \<^verbatim>\<open>await\<close>.
\<close>

datatype event =
    ClickScan
  | ClickAuto
  | ClickReset
  | ClickVoice
  | ClickCamera "js_error + media_stream"
  | ChooseFile "(string \<times> string) option"
  | Commit
  | VideoLoaded nat nat string
  | Tick nat
  | Fetched nat "js_error + string"
  | Replied nat net_outcome string

definition start_call :: "rstate \<Rightarrow> world \<Rightarrow> world" where
  "start_call cl w = (case captureAndAnalyze cl w of (w1, c) \<Rightarrow> w1\<lparr>calls := calls w1 @ [c]\<rparr>)"

definition resume_fetch :: "nat \<Rightarrow> js_error + string \<Rightarrow> world \<Rightarrow> world" where
  "resume_fetch n outcome w =
     (if n < length (calls w) then
        (case calls w ! n of
           AwaitFetch cl \<Rightarrow>
             (case captureAndAnalyze_fetched cl outcome w of
                (w1, c) \<Rightarrow> w1\<lparr>calls := (calls w1)[n := c]\<rparr>)
         | _ \<Rightarrow> w)
      else w)"

definition resume_analysis ::
  "(string \<Rightarrow> json option) \<Rightarrow> nat \<Rightarrow> net_outcome \<Rightarrow> string \<Rightarrow> world \<Rightarrow> world"
where
  "resume_analysis parse n outcome now w =
     (if n < length (calls w) then
        (case calls w ! n of
           AwaitAnalysis cl req \<Rightarrow>
             (captureAndAnalyze_analyzed cl (analyze_reply parse now outcome) w)
               \<lparr>calls := (calls w)[n := Finished]\<rparr>
         | _ \<Rightarrow> w)
      else w)"

text \<open>A click runs the handler of the last committed render.\<close>

definition on_click :: "(rstate \<Rightarrow> world \<Rightarrow> world) \<Rightarrow> world \<Rightarrow> world" where
  "on_click handler w = (case rendered w of None \<Rightarrow> w | Some cl \<Rightarrow> handler cl w)"

text \<open>
  The buttons as the render \<open>cl\<close> shows them: SCAN outside the initial mode while
  auto-scan is off, disabled while \<open>analyzing\<close>; AUTO/STOP outside the initial mode for
  a video source; RESET outside the initial mode; LIVE CAMERA in the initial mode.
\<close>

definition scan_button :: "rstate \<Rightarrow> world \<Rightarrow> world" where
  "scan_button cl w =
     (if mode cl \<noteq> Initial \<and> \<not> isAutoScan cl \<and> \<not> analyzing cl then start_call cl w else w)"

definition auto_button :: "rstate \<Rightarrow> world \<Rightarrow> world" where
  "auto_button cl w =
     (if mode cl \<noteq> Initial \<and> fileType cl = Some Video then setIsAutoScan (\<not> isAutoScan cl) w
      else w)"

definition reset_button :: "rstate \<Rightarrow> world \<Rightarrow> world" where
  "reset_button cl w = (if mode cl \<noteq> Initial then reset cl w else w)"

definition camera_button :: "js_error + media_stream \<Rightarrow> rstate \<Rightarrow> world \<Rightarrow> world" where
  "camera_button outcome cl w = (if mode cl = Initial then startCamera outcome w else w)"

definition video_loaded :: "nat \<Rightarrow> nat \<Rightarrow> string \<Rightarrow> world \<Rightarrow> world" where
  "video_loaded wd ht fr w =
     (case videoRef w of
        Some v \<Rightarrow> w\<lparr>videoRef := Some (v\<lparr>videoWidth := wd, videoHeight := ht, frame := fr\<rparr>)\<rparr>
      | None \<Rightarrow> w)"

definition tick :: "nat \<Rightarrow> world \<Rightarrow> world" where
  "tick i w = (case map_of (timers w) i of Some cl \<Rightarrow> start_call cl w | None \<Rightarrow> w)"

fun step :: "(string \<Rightarrow> json option) \<Rightarrow> event \<Rightarrow> world \<Rightarrow> world" where
  "step parse ClickScan w = on_click scan_button w"
| "step parse ClickAuto w = on_click auto_button w"
| "step parse ClickReset w = on_click reset_button w"
| "step parse ClickVoice w = on_click toggleVoice w"
| "step parse (ClickCamera outcome) w = on_click (camera_button outcome) w"
| "step parse (ChooseFile file) w = on_click (\<lambda>cl. handleFileUpload file) w"
| "step parse Commit w = commit w"
| "step parse (VideoLoaded wd ht fr) w = video_loaded wd ht fr w"
| "step parse (Tick i) w = tick i w"
| "step parse (Fetched n outcome) w = resume_fetch n outcome w"
| "step parse (Replied n outcome now) w = resume_analysis parse n outcome now w"

definition run :: "(string \<Rightarrow> json option) \<Rightarrow> event list \<Rightarrow> world \<Rightarrow> world" where
  "run parse evs w = fold (step parse) evs w"

text \<open>The calls of the analysis client that are active: sent and not yet answered.\<close>

definition is_active :: "call \<Rightarrow> bool" where
  "is_active c = (case c of AwaitAnalysis cl req \<Rightarrow> True | _ \<Rightarrow> False)"

definition active_invocations :: "world \<Rightarrow> nat" where
  "active_invocations w = length (filter is_active (calls w))"

text \<open>
  The timers that are set: none, or the one whose id \<open>autoScanInterval\<close> holds, set by
  a render with auto-scan on while the last committed render has auto-scan on.
\<close>

definition timers_tracked :: "world \<Rightarrow> bool" where
  "timers_tracked w =
     (nextTimer w \<noteq> 0
      \<and> (case timers w of
           [] \<Rightarrow> True
         | [t] \<Rightarrow>
             autoScanInterval w = Some (fst t) \<and> fst t \<noteq> 0 \<and> isAutoScan (snd t)
             \<and> (case rendered w of None \<Rightarrow> False | Some cl \<Rightarrow> isAutoScan cl)
         | _ \<Rightarrow> False))"

text \<open>The part of the world that the timer handling reads and writes.\<close>

definition timer_view :: "world \<Rightarrow> (nat \<times> rstate) list \<times> nat option \<times> nat \<times> rstate option" where
  "timer_view w = (timers w, autoScanInterval w, nextTimer w, rendered w)"

subsection \<open>Example inputs\<close>

text \<open>
  What \<^verbatim>\<open>FileReader.readAsDataURL\<close> gives for an uploaded GIF and for an uploaded PNG,
  and a JPEG frame of a video.
\<close>

definition gif_payload :: string where
  "gif_payload = ''data:image/gif;base64,R0lGODlhAQABAAAAACw=''"

definition png_payload :: string where
  "png_payload = ''data:image/png;base64,iVBORw0KGgo=''"

definition jpeg_frame :: string where
  "jpeg_frame = ''data:image/jpeg;base64,/9j/4AAQSkZJRg==''"

text \<open>
  Two reply bodies and what \<^verbatim>\<open>JSON.parse\<close> gives for them: the empty object, and an
  object whose safety level is not one of the schema's three. \<open>parse_fixture\<close> stands
  for \<^verbatim>\<open>JSON.parse\<close> on these two bodies.
\<close>

definition peril_body :: string where
  \<open>peril_body = ''{"safetyLevel":"PERIL"}''\<close>

definition parse_fixture :: "string \<Rightarrow> json option" where
  "parse_fixture s =
     (if s = ''{}'' then Some (JObj [])
      else if s = peril_body then Some (JObj [(''safetyLevel'', JStr ''PERIL'')])
      else None)"

text \<open>
  An uploaded still image and two clicks on SCAN before the image is read; both reads
  then finish.
\<close>

definition double_scan :: "event list" where
  "double_scan =
     [Commit, ChooseFile (Some (''blob:nexvue/1'', ''image/png'')), Commit,
      ClickScan, ClickScan, Fetched 0 (Inr png_payload), Fetched 1 (Inr png_payload)]"

text \<open>
  The camera with auto-scan on: the timer fires, the render that follows shows
  \<open>analyzing\<close>, and the timer fires again before the first reply.
\<close>

definition camera_auto_scan :: "event list" where
  "camera_auto_scan =
     [Commit, ClickCamera (Inr [7, 8]), Commit, VideoLoaded 640 480 jpeg_frame,
      ClickAuto, Commit]"

definition stale_ticks :: "event list" where
  "stale_ticks = camera_auto_scan @ [Tick 1, Commit, Tick 1]"

text \<open>Auto-scan on, then the click on STOP, not yet followed by a commit.\<close>

definition disable_auto_scan :: "event list" where
  "disable_auto_scan = camera_auto_scan @ [ClickAuto]"

text \<open>The camera just started: the video element has no dimensions yet.\<close>

definition camera_starting :: "event list" where
  "camera_starting = [Commit, ClickCamera (Inr [7, 8]), Commit]"

definition image_uploaded :: "event list" where
  "image_uploaded = [Commit, ChooseFile (Some (''blob:nexvue/1'', ''image/png'')), Commit]"

text \<open>Results of the three safety levels, a render that shows one with voice on, and a
  browser that is speaking.\<close>

definition level_result :: "string \<Rightarrow> js_object" where
  "level_result level =
     [(''signs'', JArr []), (''hazards'', JArr []), (''safetyLevel'', JStr level),
      (''recommendation'', JStr ''Slow down''), (''timestamp'', JStr ''10:15:00 AM'')]"

definition voice_render :: "string \<Rightarrow> bool \<Rightarrow> rstate" where
  "voice_render level auto =
     initial_rstate\<lparr>mode := Camera, fileType := Some Video, result := Some (level_result level),
       isVoiceEnabled := True, isAutoScan := auto\<rparr>"

definition stale_utterance :: utterance where
  "stale_utterance = \<lparr> utterance_text = ''Road is clear'', rate = 11 / 10, pitch = 1 \<rparr>"

definition speaking_world :: world where
  "speaking_world = initial_world\<lparr>speechSynthesis := Some [stale_utterance]\<rparr>"

section \<open>Properties\<close>

subsection \<open>Auxiliary facts\<close>

lemmas setters =
  setMode_def setFileType_def setMediaSource_def setCameraStream_def setResult_def
  setAnalyzing_def setError_def setIsVoiceEnabled_def setIsAutoScan_def

lemma seq_Nil [simp]: "seq [] s = s"
  by (simp add: seq_def)

lemma seq_Cons [simp]: "seq (f # fs) s = seq fs (f s)"
  by (simp add: seq_def)

lemmas fixture_defs =
  gif_payload_def png_payload_def jpeg_frame_def peril_body_def parse_fixture_def
  double_scan_def camera_auto_scan_def stale_ticks_def disable_auto_scan_def
  camera_starting_def image_uploaded_def level_result_def voice_render_def
  stale_utterance_def speaking_world_def

lemmas model_defs =
  run_def on_click_def scan_button_def auto_button_def reset_button_def camera_button_def
  video_loaded_def tick_def commit_def commit_attach_def commit_autoScan_def attach_refs_def
  attach_effect_def attach_deps_def autoScan_deps_def autoScan_effect_def autoScan_cleanup_def
  truthy_id_def clearInterval_def start_call_def resume_fetch_def resume_analysis_def
  captureAndAnalyze_def submit_def captureAndAnalyze_fetched_def captureAndAnalyze_analyzed_def
  handleFileUpload_def startCamera_def reset_def stopCamera_def toggleVoice_def setters
  console_error_def initial_world_def initial_rstate_def active_invocations_def is_active_def
  Let_def

text \<open>An alternative of the regular expression, when present, is removed.\<close>

lemma cleanBase64_strips: "p \<in> set dataUrlPrefixes \<Longrightarrow> cleanBase64 (p @ s) = s"
  by (auto simp: cleanBase64_def dataUrlPrefixes_def)

subsection \<open>The analysis client\<close>

text \<open>
  C7. The client is to strip any embedded data-URL format prefix, so that the data sent
  never begins with one. The regular expression lists four formats only. For an uploaded
  GIF, which the file input accepts (\<^verbatim>\<open>image/*\<close>) and \<^verbatim>\<open>captureAndAnalyze\<close> hands over
  as a data URL, the data sent is the whole data URL, prefix included.
\<close>

theorem gif_prefix_not_stripped:
  "inlineData (analyze_request gif_payload) = gif_payload
   \<and> take 22 (inlineData (analyze_request gif_payload)) = ''data:image/gif;base64,''"
  by (simp add: analyze_request_def cleanBase64_def dataUrlPrefixes_def gif_payload_def)

text \<open>
  C8, as amended. \<^verbatim>\<open>analyzeRoadScene\<close> throws exactly when the network call fails, the
  reply has no text (\<^verbatim>\<open>undefined\<close> or empty), or \<^verbatim>\<open>JSON.parse\<close> throws on the text.
  Nothing is checked against the schema: whatever value the text parses to is returned,
  spread into an object with the timestamp added, and every field of a parsed object
  other than the timestamp, the safety level among them, is passed through unmodified.
\<close>

theorem analyzeRoadScene_fails_iff_no_json:
  "(isl (snd (analyzeRoadScene parse net now img)) \<longleftrightarrow>
      (case net (analyze_request img) of
         NetworkFailure msg \<Rightarrow> True
       | Response txt \<Rightarrow> (case txt of None \<Rightarrow> True | Some s \<Rightarrow> s = [] \<or> parse s = None)))
   \<and> (\<forall>s data. net (analyze_request img) = Response (Some s) \<and> s \<noteq> [] \<and> parse s = Some data \<longrightarrow>
          analyzeRoadScene parse net now img =
            ([], Inr (AList.update ''timestamp'' (JStr now) (spread data))))
   \<and> (\<forall>s kv. net (analyze_request img) = Response (Some s) \<and> s \<noteq> [] \<and> parse s = Some (JObj kv) \<longrightarrow>
          (\<exists>obj. snd (analyzeRoadScene parse net now img) = Inr obj
             \<and> field obj ''timestamp'' = Some (JStr now)
             \<and> (\<forall>k. k \<noteq> ''timestamp'' \<longrightarrow> field obj k = field kv k)))"
  by (simp add: analyzeRoadScene_def analyze_reply_def rethrow_def field_def update_conv'
      split: net_outcome.splits option.splits)

text \<open>
  Witness: a reply whose safety level is outside the schema's enumeration is returned,
  with that level and the timestamp.
\<close>

theorem analyzeRoadScene_fails_iff_no_json_witness:
  "\<not> isl (snd (analyzeRoadScene parse_fixture (\<lambda>req. Response (Some peril_body)) ''10:15:00 AM'' png_payload))
   \<and> analyzeRoadScene parse_fixture (\<lambda>req. Response (Some peril_body)) ''10:15:00 AM'' png_payload =
       ([], Inr [(''safetyLevel'', JStr ''PERIL''), (''timestamp'', JStr ''10:15:00 AM'')])
   \<and> isl (snd (analyzeRoadScene parse_fixture (\<lambda>req. Response (Some ''not json'')) ''10:15:00 AM'' png_payload))"
  using analyzeRoadScene_fails_iff_no_json
          [of parse_fixture "\<lambda>req. Response (Some peril_body)" "''10:15:00 AM''" png_payload]
        analyzeRoadScene_fails_iff_no_json
          [of parse_fixture "\<lambda>req. Response (Some ''not json'')" "''10:15:00 AM''" png_payload]
  by (simp add: parse_fixture_def peril_body_def)

text \<open>
  Counterexample to C8 as stated: the body \<^verbatim>\<open>{}\<close> is valid JSON that does not match the
  schema (every required field is missing), and the client returns it without an error.
\<close>

theorem schema_violation_is_not_an_error:
  "parse_fixture ''{}'' = Some (JObj []) \<and> \<not> analysisSchema (JObj [])
   \<and> analyzeRoadScene parse_fixture (\<lambda>req. Response (Some ''{}'')) ''10:15:00 AM'' png_payload =
       ([], Inr [(''timestamp'', JStr ''10:15:00 AM'')])"
  by (simp add: parse_fixture_def analysisSchema_def is_array_of_def field_def
      analyzeRoadScene_def analyze_reply_def)

subsection \<open>Voice\<close>

text \<open>
  C5. With voice on (the switch is on and the browser has speech synthesis), a new result
  of level DANGER cancels whatever is queued or being spoken and then speaks the warning,
  which is then the only utterance; a result of level CAUTION is queued behind the
  utterances already there, none of which is cancelled.
\<close>

theorem voice_danger_cancels_caution_queues:
  assumes "result cl = Some r" and "isVoiceEnabled cl" and "speechSynthesis w = Some q"
  shows
    "(field r ''safetyLevel'' = Some (JStr ''DANGER'') \<longrightarrow>
        voice_effect cl w =
          w\<lparr>speechSynthesis :=
              Some [\<lparr> utterance_text = ''Warning. '' @ template_string (field r ''recommendation''),
                      rate = 11 / 10, pitch = 1 \<rparr>]\<rparr>)
     \<and> (field r ''safetyLevel'' = Some (JStr ''CAUTION'') \<longrightarrow>
        voice_effect cl w =
          w\<lparr>speechSynthesis :=
              Some (q @ [\<lparr> utterance_text = ''Caution. '' @ template_string (field r ''recommendation''),
                           rate = 11 / 10, pitch = 1 \<rparr>])\<rparr>)"
  using assms
  by (simp add: voice_effect_def speak_def speech_speak_def speech_cancel_def utterance_string_def)

theorem voice_danger_cancels_caution_queues_witness:
  "speechSynthesis (voice_effect (voice_render ''DANGER'' True) speaking_world) =
     Some [\<lparr> utterance_text = ''Warning. Slow down'', rate = 11 / 10, pitch = 1 \<rparr>]
   \<and> speechSynthesis (voice_effect (voice_render ''CAUTION'' True) speaking_world) =
     Some [stale_utterance, \<lparr> utterance_text = ''Caution. Slow down'', rate = 11 / 10, pitch = 1 \<rparr>]"
  using voice_danger_cancels_caution_queues
          [of "voice_render ''DANGER'' True" "level_result ''DANGER''" speaking_world "[stale_utterance]"]
        voice_danger_cancels_caution_queues
          [of "voice_render ''CAUTION'' True" "level_result ''CAUTION''" speaking_world "[stale_utterance]"]
  by (simp add: voice_render_def level_result_def speaking_world_def initial_world_def
      initial_rstate_def field_def template_string_def)

text \<open>
  C6. With voice on, a new result of level SAFE is spoken (queued, nothing cancelled) if
  and only if auto-scan is off in the render that shows the result: in auto-scan nothing
  is spoken and the speech queue is untouched.
\<close>

theorem voice_safe_iff_not_auto_scan:
  assumes "result cl = Some r" and "isVoiceEnabled cl" and "speechSynthesis w = Some q"
    and "field r ''safetyLevel'' = Some (JStr ''SAFE'')"
  shows
    "voice_effect cl w =
       (if isAutoScan cl then w
        else w\<lparr>speechSynthesis :=
                 Some (q @ [\<lparr> utterance_text = utterance_string (field r ''recommendation''),
                              rate = 11 / 10, pitch = 1 \<rparr>])\<rparr>)"
  using assms
  by (simp add: voice_effect_def speak_def speech_speak_def speech_cancel_def)

theorem voice_safe_iff_not_auto_scan_witness:
  "voice_effect (voice_render ''SAFE'' True) speaking_world = speaking_world
   \<and> speechSynthesis (voice_effect (voice_render ''SAFE'' False) speaking_world) =
     Some [stale_utterance, \<lparr> utterance_text = ''Slow down'', rate = 11 / 10, pitch = 1 \<rparr>]"
  using voice_safe_iff_not_auto_scan
          [of "voice_render ''SAFE'' True" "level_result ''SAFE''" speaking_world "[stale_utterance]"]
        voice_safe_iff_not_auto_scan
          [of "voice_render ''SAFE'' False" "level_result ''SAFE''" speaking_world "[stale_utterance]"]
  by (simp add: voice_render_def level_result_def speaking_world_def initial_world_def
      initial_rstate_def field_def utterance_string_def)


subsection \<open>Capture and analysis\<close>

text \<open>
  C9. An invocation of \<^verbatim>\<open>captureAndAnalyze\<close> on a video source whose element reports a
  zero width or height returns at once and changes nothing: no error, no in-flight flag,
  the result kept, the canvas untouched, and no analysis pending.
\<close>

theorem zero_dimension_video_is_skipped:
  assumes "fileType cl = Some Video" and "videoRef w = Some v"
    and "videoWidth v = 0 \<or> videoHeight v = 0"
  shows "captureAndAnalyze cl w = (w, Finished)"
  using assms by (auto simp: captureAndAnalyze_def submit_def Let_def)

theorem zero_dimension_video_is_skipped_witness:
  "fileType (rs (run parse_fixture camera_starting initial_world)) = Some Video
   \<and> map_option videoWidth (videoRef (run parse_fixture camera_starting initial_world)) = Some 0
   \<and> captureAndAnalyze (rs (run parse_fixture camera_starting initial_world))
        (run parse_fixture camera_starting initial_world) =
       (run parse_fixture camera_starting initial_world, Finished)"
  using zero_dimension_video_is_skipped
          [of "rs (run parse_fixture camera_starting initial_world)"
              "run parse_fixture camera_starting initial_world"
              "\<lparr> videoWidth = 0, videoHeight = 0, srcObject = Some [7, 8], frame = [] \<rparr>"]
  by (simp add: model_defs camera_starting_def)

text \<open>
  C10. For a still-image source the invocation changes nothing before its first
  \<^verbatim>\<open>await\<close>, and when the fetch or the conversion to a data URL fails it ends there: the
  failure is written to the console and nothing else changes, so no error is shown, the
  in-flight flag is not set and the analysis client is not called.
\<close>

theorem image_capture_failure_is_silent:
  assumes "fileType cl = Some Image"
  shows
    "fst (captureAndAnalyze cl w) = w
     \<and> (snd (captureAndAnalyze cl w) = Finished \<or> snd (captureAndAnalyze cl w) = AwaitFetch cl)
     \<and> captureAndAnalyze_fetched cl (Inl err) w' =
         (w'\<lparr>console := console w' @ [Labelled ''Error converting image to base64:'' err]\<rparr>,
          Finished)
     \<and> rs (fst (captureAndAnalyze_fetched cl (Inl err) w')) = rs w'"
  using assms
  by (simp add: captureAndAnalyze_def submit_def captureAndAnalyze_fetched_def console_error_def)

theorem image_capture_failure_is_silent_witness:
  "captureAndAnalyze (rs (run parse_fixture image_uploaded initial_world))
        (run parse_fixture image_uploaded initial_world) =
     (run parse_fixture image_uploaded initial_world,
      AwaitFetch (rs (run parse_fixture image_uploaded initial_world)))
   \<and> rs (run parse_fixture (image_uploaded @ [ClickScan, Fetched 0 (Inl (FetchError ''gone''))])
            initial_world) =
       rs (run parse_fixture image_uploaded initial_world)
   \<and> active_invocations
        (run parse_fixture (image_uploaded @ [ClickScan, Fetched 0 (Inl (FetchError ''gone''))])
           initial_world) = 0"
  using image_capture_failure_is_silent
          [of "rs (run parse_fixture image_uploaded initial_world)"
              "run parse_fixture image_uploaded initial_world"
              "FetchError ''gone''"
              "run parse_fixture (image_uploaded @ [ClickScan]) initial_world"]
  by (simp add: model_defs image_uploaded_def)



subsection \<open>Reset\<close>

text \<open>
  C3. \<^verbatim>\<open>reset\<close>, run from a render of the current camera stream, leaves the baseline:
  initial mode, no file type, no media source, no camera stream (every track of the old
  stream stopped, the video element detached from it), no result, no error, auto-scan
  off. Running it again changes nothing.
\<close>

theorem reset_returns_to_baseline:
  assumes "cameraStream cl = cameraStream (rs w)"
  shows
    "mode (rs (reset cl w)) = Initial \<and> fileType (rs (reset cl w)) = None
     \<and> mediaSource (rs (reset cl w)) = None \<and> cameraStream (rs (reset cl w)) = None
     \<and> result (rs (reset cl w)) = None \<and> error (rs (reset cl w)) = None
     \<and> isAutoScan (rs (reset cl w)) = False
     \<and> (case cameraStream (rs w) of
          None \<Rightarrow> endedTracks (reset cl w) = endedTracks w
        | Some stream \<Rightarrow> endedTracks (reset cl w) = endedTracks w \<union> set stream)
     \<and> map_option srcObject (videoRef (reset cl w)) = map_option (\<lambda>v. None) (videoRef w)
     \<and> reset (rs (reset cl w)) (reset cl w) = reset cl w
     \<and> reset cl (reset cl w) = reset cl w"
  using assms
  by (auto simp: reset_def stopCamera_def setters Let_def split: option.splits)

theorem reset_returns_to_baseline_witness:
  "cameraStream (rs (run parse_fixture camera_auto_scan initial_world)) = Some [7, 8]
   \<and> isAutoScan (rs (run parse_fixture camera_auto_scan initial_world))
   \<and> rs (reset (rs (run parse_fixture camera_auto_scan initial_world))
            (run parse_fixture camera_auto_scan initial_world)) = initial_rstate
   \<and> endedTracks (reset (rs (run parse_fixture camera_auto_scan initial_world))
            (run parse_fixture camera_auto_scan initial_world)) = {7, 8}"
  using reset_returns_to_baseline
          [of "rs (run parse_fixture camera_auto_scan initial_world)"
              "run parse_fixture camera_auto_scan initial_world"]
  by (simp add: model_defs camera_auto_scan_def jpeg_frame_def)

subsection \<open>Overlapping analyses\<close>

text \<open>
  C1. At most one call of the analysis client is to be active at any instant, also for
  invocations that race through the asynchronous image capture. The guard reads
  \<open>analyzing\<close>, which the image branch sets only after its \<^verbatim>\<open>await\<close>s: two clicks on
  SCAN before the image is read both pass the guard. When the first read finishes the flag
  is set and one call is active; when the second finishes a second call is sent, and two
  are active.
\<close>

theorem double_scan_overlaps:
  "analyzing (rs (run parse_fixture (butlast double_scan) initial_world))
   \<and> active_invocations (run parse_fixture (butlast double_scan) initial_world) = 1
   \<and> active_invocations (run parse_fixture double_scan initial_world) = 2"
  by (simp add: model_defs double_scan_def png_payload_def)

text \<open>
  The same with the auto-scan timer: its callback closes over the render in which the
  effect ran, where \<open>analyzing\<close> was false, and \<open>analyzing\<close> is not a dependency of the
  effect. A tick that comes before the reply to the previous one sends a second request.
\<close>

lemma stale_tick_overlaps:
  "analyzing (rs (run parse_fixture (butlast stale_ticks) initial_world))
   \<and> active_invocations (run parse_fixture (butlast stale_ticks) initial_world) = 1
   \<and> active_invocations (run parse_fixture stale_ticks initial_world) = 2"
  by (simp add: model_defs stale_ticks_def camera_auto_scan_def jpeg_frame_def)

subsection \<open>The timer of auto-scan\<close>

lemma timer_view_setters [simp]:
  "timer_view (setMode a w) = timer_view w"
  "timer_view (setFileType b w) = timer_view w"
  "timer_view (setMediaSource c w) = timer_view w"
  "timer_view (setCameraStream d w) = timer_view w"
  "timer_view (setResult e w) = timer_view w"
  "timer_view (setAnalyzing f w) = timer_view w"
  "timer_view (setError g w) = timer_view w"
  "timer_view (setIsVoiceEnabled h w) = timer_view w"
  "timer_view (setIsAutoScan i w) = timer_view w"
  "timer_view (console_error l w) = timer_view w"
  by (simp_all add: timer_view_def setters console_error_def)

lemma timer_view_updates [simp]:
  "timer_view (w\<lparr>rs := r\<rparr>) = timer_view w"
  "timer_view (w\<lparr>videoRef := v\<rparr>) = timer_view w"
  "timer_view (w\<lparr>canvasRef := c\<rparr>) = timer_view w"
  "timer_view (w\<lparr>endedTracks := t\<rparr>) = timer_view w"
  "timer_view (w\<lparr>speechSynthesis := q\<rparr>) = timer_view w"
  "timer_view (w\<lparr>console := l\<rparr>) = timer_view w"
  "timer_view (w\<lparr>calls := cs\<rparr>) = timer_view w"
  by (simp_all add: timer_view_def)

lemma timer_view_reset [simp]: "timer_view (reset cl w) = timer_view w"
  by (simp add: reset_def stopCamera_def Let_def split: option.splits)

lemma timer_view_toggleVoice [simp]: "timer_view (toggleVoice cl w) = timer_view w"
  by (simp add: toggleVoice_def speech_cancel_def Let_def)

lemma timer_view_startCamera [simp]: "timer_view (startCamera out w) = timer_view w"
  by (simp add: startCamera_def split: sum.splits)

lemma timer_view_handleFileUpload [simp]: "timer_view (handleFileUpload f w) = timer_view w"
  by (simp add: handleFileUpload_def split: option.splits prod.splits)

lemma timer_view_submit [simp]: "timer_view (fst (submit cl u w)) = timer_view w"
  by (simp add: submit_def split: option.splits)

lemma timer_view_captureAndAnalyze [simp]:
  "timer_view (fst (captureAndAnalyze cl w)) = timer_view w"
  by (simp add: captureAndAnalyze_def Let_def)

lemma timer_view_start_call [simp]: "timer_view (start_call cl w) = timer_view w"
proof -
  have "timer_view (fst (captureAndAnalyze cl w)) = timer_view w" by simp
  then show ?thesis by (cases "captureAndAnalyze cl w") (simp add: start_call_def)
qed

lemma timer_view_fetched [simp]:
  "timer_view (fst (captureAndAnalyze_fetched cl out w)) = timer_view w"
  by (simp add: captureAndAnalyze_fetched_def split: sum.splits)

lemma timer_view_resume_fetch_aux:
  "timer_view (case captureAndAnalyze_fetched cl out w of
                 (w1, c) \<Rightarrow> w1\<lparr>calls := (calls w1)[n := c]\<rparr>) = timer_view w"
proof -
  have "timer_view (fst (captureAndAnalyze_fetched cl out w)) = timer_view w" by simp
  then show ?thesis by (cases "captureAndAnalyze_fetched cl out w") simp
qed

lemma timer_view_resume_fetch [simp]: "timer_view (resume_fetch n out w) = timer_view w"
  by (simp add: resume_fetch_def timer_view_resume_fetch_aux split: call.splits)

lemma timer_view_analyzed [simp]:
  "timer_view (captureAndAnalyze_analyzed cl reply w) = timer_view w"
  by (simp add: captureAndAnalyze_analyzed_def Let_def split: sum.splits)

lemma timer_view_resume_analysis [simp]:
  "timer_view (resume_analysis parse n out now w) = timer_view w"
  by (simp add: resume_analysis_def split: call.splits)



lemma timer_view_attach [simp]:
  "timer_view (attach_refs cl w) = timer_view w"
  "timer_view (attach_effect cl w) = timer_view w"
  by (simp_all add: attach_refs_def attach_effect_def)

lemma timer_view_commit_attach [simp]: "timer_view (commit_attach w) = timer_view w"
  by (simp add: commit_attach_def Let_def split: option.splits)

lemma tracked_cases:
  "timers_tracked w \<longleftrightarrow>
     nextTimer w \<noteq> 0 \<and>
     (timers w = [] \<or>
      (\<exists>i cl old. timers w = [(i, cl)] \<and> autoScanInterval w = Some i \<and> i \<noteq> 0 \<and> isAutoScan cl
         \<and> rendered w = Some old \<and> isAutoScan old))"
  by (cases "timers w"; cases "tl (timers w)"; cases "rendered w")
     (auto simp: timers_tracked_def)











text \<open>
  The callback of a timer that is set closes over a render with auto-scan on, so a failed
  analysis that a tick started never sets the user-visible error; the SCAN button runs
  only from a render with auto-scan off.
\<close>

lemma timer_callbacks_see_auto_scan:
  assumes "timers_tracked w" and "map_of (timers w) i = Some cl"
  shows "isAutoScan cl"
  using assms unfolding tracked_cases by (auto split: if_splits)





end
